theory Spec2Isabelle
  imports Complex_Main
begin

section \<open>Data model\<close>

text \<open>
  The interaction handlers of the zoom plugin (handlers.js) and the geometry of the
  drag rectangle. JavaScript numbers are modelled as real numbers: pixel positions and
  sizes are finite, and the non-finite result of a division by zero is written out
  where the code divides.

  Naming: a field that several JavaScript objects share, or whose name is a constant
  of HOL, carries the object as a prefix (\<open>area_left\<close> for \<open>chartArea.left\<close>,
  \<open>r_left\<close> for the returned rectangle's \<open>left\<close>, \<open>pt_x\<close> for a point's \<open>x\<close>).
\<close>

type_synonym target = nat
  \<comment> \<open>the identity of a DOM object that listeners are attached to\<close>

datatype Key = Ctrl | Alt | Shift | Meta
  \<comment> \<open>\<open>type Key = 'ctrl' | 'alt' | 'shift' | 'meta'\<close>\<close>

datatype Mode = X | Y | XY
  \<comment> \<open>\<open>type Mode = 'x' | 'y' | 'xy'\<close>; a mode given as a function is taken at its value\<close>

datatype DRAG_MODE = DRAG | RANGE
  \<comment> \<open>\<open>state.dragMode\<close> is \<open>Some DRAG\<close>, \<open>Some RANGE\<close>, or \<open>None\<close> for \<open>null\<close>\<close>

datatype error = TypeError

record point =
  pt_x :: real
  pt_y :: real

record event =
  button :: int
  ctrlKey :: bool
  altKey :: bool
  shiftKey :: bool
  metaKey :: bool
  key :: string
  relX :: real
  relY :: real
  cancelable :: bool
  deltaY :: "real option"
  clientX :: real
  clientY :: real
  rectLeft :: real
  rectTop :: real

text \<open>
  \<open>relX\<close>, \<open>relY\<close>: the position of the event relative to the chart, which
  \<open>getRelativePosition\<close> of chart.js returns. \<open>deltaY = None\<close> is \<open>undefined\<close>.
  \<open>rectLeft\<close>, \<open>rectTop\<close>: \<open>event.target.getBoundingClientRect()\<close>.
\<close>

definition getRelativePosition :: "event \<Rightarrow> point" where
  "getRelativePosition e = \<lparr>pt_x = relX e, pt_y = relY e\<rparr>"

record area =
  area_top :: real
  area_left :: real
  area_right :: real
  area_bottom :: real
  area_width :: real
  area_height :: real

record chart =
  chartArea :: area
  scales :: "string \<rightharpoonup> (real \<Rightarrow> real)"
  canvas :: target
  ownerDocument :: target
  windowDocument :: target

text \<open>
  \<open>scales c id\<close> is the \<open>getValueForPixel\<close> of the scale \<open>id\<close>, when the chart has
  it. \<open>ownerDocument\<close> is \<open>canvas.ownerDocument\<close>; \<open>windowDocument\<close> is the global
  \<open>window.document\<close>.
\<close>

record rangeDataIndex =
  x_left :: real
  x_right :: real
  y_top :: real
  y_bottom :: real

record rect =
  r_left :: real
  r_top :: real
  r_right :: real
  r_bottom :: real
  r_width :: real
  r_height :: real
  zoomX :: "real option"
  zoomY :: "real option"
  rangeDataIndex :: "rangeDataIndex option"

text \<open>
  \<open>zoomX\<close>, \<open>zoomY\<close>: \<open>None\<close> stands for the non-finite number JavaScript computes
  when it divides by a chart width or height of zero.
\<close>

subsection \<open>Options\<close>

record gesture_opts =
  enabled :: bool
  modifierKey :: "Key option"

record wheel_opts = gesture_opts +
  speed :: real

record drag_opts = gesture_opts +
  threshold :: "real option"

record zoom_opts =
  zoomMode :: Mode
  wheelOptions :: wheel_opts
  dragOptions :: drag_opts
  onZoomComplete :: bool
  onZoomRejected :: bool
  onZoomStart :: "(event \<Rightarrow> point \<Rightarrow> bool) option"

record range_opts = gesture_opts +
  rangeMode :: Mode
  mirroring :: bool
  onRangeSelected :: bool

record options =
  panOptions :: gesture_opts
  zoomOptions :: zoom_opts
  rangeOptions :: range_opts

text \<open>
  A callback that returns nothing of interest is a flag: is it configured.
  \<open>onZoomStart\<close> is the callback itself, since its result decides: the function is
  \<open>False\<close> exactly where the JavaScript callback returns \<open>false\<close>. Callbacks are
  the user's code: they are taken not to throw and not to touch the plugin's state.
\<close>

subsection \<open>Helpers of the utils module\<close>

definition modifier_down :: "Key \<Rightarrow> event \<Rightarrow> bool" where
  \<comment> \<open>\<open>event[key + 'Key']\<close>\<close>
  "modifier_down k e =
     (case k of Ctrl \<Rightarrow> ctrlKey e | Alt \<Rightarrow> altKey e | Shift \<Rightarrow> shiftKey e | Meta \<Rightarrow> metaKey e)"

text \<open>
  Modelled from the spec: \<open>getModifierKey\<close> of the utils module, which is not among the
  sources. It reads the required key of a gesture's options (Section 4.2:
  ``\<open>requiredKey\<close> is one of \<open>ctrl|alt|shift|meta|null\<close>''), and it yields no key for
  a gesture that is not enabled: a feature that is turned off (Section 4.3) requires
  none. So the range selection of the plugin's defaults (\<open>enabled: false\<close>,
  \<open>modifierKey: 'alt'\<close>) has no required key.
\<close>

definition getModifierKey :: "'a gesture_opts_scheme \<Rightarrow> Key option" where
  "getModifierKey opts = (if enabled opts then modifierKey opts else None)"

text \<open>
  Modelled from the spec: \<open>keyNotPressed\<close> of the utils module, which is not among the
  sources. Section 4.2: \<open>isAuthorized\<close> ``returns true iff \<open>requiredKey\<close> is null/absent
  or the corresponding modifier is pressed on \<open>event\<close>. A companion \<open>isBlocked\<close> is the
  negation, used to short-circuit and fire rejection callbacks.''
\<close>

definition keyNotPressed :: "Key option \<Rightarrow> event \<Rightarrow> bool" where
  "keyNotPressed k e = (case k of None \<Rightarrow> False | Some m \<Rightarrow> \<not> modifier_down m e)"

text \<open>
  Modelled from the spec: \<open>keyPressed\<close> of the utils module, which is not among the
  sources. Section 4.2: ``the corresponding modifier is pressed on \<open>event\<close>''; with no
  key required no modifier is active (Section 4.3 rejects a start ``if any disallowed
  modifier is active'').
\<close>

definition keyPressed :: "Key option \<Rightarrow> event \<Rightarrow> bool" where
  "keyPressed k e = (case k of None \<Rightarrow> False | Some m \<Rightarrow> modifier_down m e)"

text \<open>
  Modelled from the spec: \<open>directionEnabled\<close> of the utils module, which is not among
  the sources. Section 4.1: the directional mode is \<open>x\<close>, \<open>y\<close> or \<open>xy\<close>, and a
  direction is enabled when the mode names it.
\<close>

definition directionEnabled :: "Mode \<Rightarrow> string \<Rightarrow> bool" where
  "directionEnabled m dir =
     (case m of X \<Rightarrow> dir = ''x'' | Y \<Rightarrow> dir = ''y'' | XY \<Rightarrow> dir = ''x'' \<or> dir = ''y'')"

section \<open>Geometry: computeDragRect\<close>

definition zoomFactor :: "bool \<Rightarrow> real \<Rightarrow> real \<Rightarrow> real option" where
  \<comment> \<open>\<open>xEnabled && width ? 1 + (chartWidth - width) / chartWidth : 1\<close>, and the same for y\<close>
  "zoomFactor dirEnabled extent chartExtent =
     (if dirEnabled \<and> extent \<noteq> 0
      then (if chartExtent = 0 then None else Some (1 + (chartExtent - extent) / chartExtent))
      else Some 1)"

definition computeDragRect ::
  "chart \<Rightarrow> Mode \<Rightarrow> DRAG_MODE option \<Rightarrow> bool \<Rightarrow> event \<Rightarrow> event \<Rightarrow> error + rect" where
  "computeDragRect c m dm mirror beginPointEvent endPointEvent =
    (let xEnabled = directionEnabled m ''x'';
         yEnabled = directionEnabled m ''y'';
         a = chartArea c;
         beginPoint = getRelativePosition beginPointEvent;
         endPoint = getRelativePosition endPointEvent;
         (left1, right1) =
           (if xEnabled
            then (min (pt_x beginPoint) (pt_x endPoint), max (pt_x beginPoint) (pt_x endPoint))
            else (area_left a, area_right a));
         (top1, bottom1) =
           (if yEnabled
            then (min (pt_y beginPoint) (pt_y endPoint), max (pt_y beginPoint) (pt_y endPoint))
            else (area_top a, area_bottom a));
         width1 = right1 - left1;
         height1 = bottom1 - top1;
         (left, right, width) =
           (if dm = Some RANGE \<and> xEnabled \<and> mirror
            then (if pt_x beginPoint < pt_x endPoint
                  then (left1 - width1, right1, width1 + width1)
                  else (left1, right1 + width1, width1 + width1))
            else (left1, right1, width1));
         (top, bottom, height) =
           (if dm = Some RANGE \<and> yEnabled \<and> mirror
            then (if pt_y beginPoint < pt_y endPoint
                  then (top1 - height1, bottom1, height1 + height1)
                  else (top1, bottom1 + height1, height1 + height1))
            else (top1, bottom1, height1));
         retVal = \<lparr>r_left = left, r_top = top, r_right = right, r_bottom = bottom,
                   r_width = width, r_height = height,
                   zoomX = zoomFactor xEnabled width (area_width a),
                   zoomY = zoomFactor yEnabled height (area_height a),
                   rangeDataIndex = None\<rparr>
     in if dm = Some RANGE
        then (case scales c ''x'' of
                None \<Rightarrow> Inl TypeError
              | Some xValueForPixel \<Rightarrow>
                  (case scales c ''y'' of
                     None \<Rightarrow> Inl TypeError
                   | Some yValueForPixel \<Rightarrow>
                       Inr (retVal\<lparr>rangeDataIndex :=
                              Some \<lparr>x_left = xValueForPixel left, x_right = xValueForPixel right,
                                    y_top = yValueForPixel top, y_bottom = yValueForPixel bottom\<rparr>\<rparr>)))
        else Inr retVal)"

text \<open>
  \<open>chart.scales.x.getValueForPixel\<close> throws a TypeError when the chart has no scale
  \<open>x\<close> (\<open>chart.scales.x\<close> is \<open>undefined\<close>), and the same for \<open>y\<close>: the \<open>Inl\<close>
  results.
\<close>

section \<open>Interaction state and its environment\<close>

datatype listener = MouseMove | KeyDown | MouseDown | MouseUp | Wheel | Debounced
  \<comment> \<open>the function a stored handler wraps; \<open>Debounced\<close> is \<open>debounce(...)\<close>\<close>

record handler =
  target :: "target option"
  hid :: nat
  wraps :: listener

text \<open>
  \<open>handlers[type]\<close> is a closure made anew by every \<open>addHandler\<close>: \<open>hid\<close> is its
  identity. \<open>target\<close> is the property \<open>addHandler\<close> sets on it; a debounced handler has
  none.
\<close>

datatype effect =
    Update string
  | ZoomRect point point string
  | Zoom real real point
  | CallOnZoomStart event point
  | CallOnZoomRejected event
  | CallOnZoomComplete
  | CallOnRangeSelected "rangeDataIndex option"
  | CallDebouncedZoomComplete
  | PreventDefault
  | SetTimeout nat

text \<open>
  What a handler does beyond its own state, in order: \<open>chart.update(mode)\<close>, the
  \<open>zoomRect\<close> and \<open>zoom\<close> of the core module (\<open>Zoom x y focalPoint\<close>), a callback of
  the options that ran, \<open>handlers.onZoomComplete()\<close>, \<open>event.preventDefault()\<close>, and
  \<open>setTimeout(() => (state.dragging = false), ms)\<close>. The timer and the debounced
  handler run later, outside the handler call that the trace records.
\<close>

record state =
  dragMode :: "DRAG_MODE option"
  dragStart :: "event option"
  dragEnd :: "event option"
  dragging :: bool
  handlers :: "string \<rightharpoonup> handler"
  options :: options
  listeners :: "(target \<times> string \<times> nat) list"
  next_hid :: nat
  trace :: "effect list"

text \<open>
  \<open>getState(chart)\<close> with its environment: \<open>listeners\<close> are the listeners registered
  in the DOM (target, event type, closure), \<open>next_hid\<close> names the next closure, and
  \<open>trace\<close> records the effects.
\<close>

text \<open>
  Modelled from the spec: the state \<open>getState\<close> of the state module creates, which is
  not among the sources. Section 3: no drag mode, no drag start or end, not dragging,
  no active handler.
\<close>

definition initialState :: "options \<Rightarrow> state" where
  "initialState opts =
     \<lparr>dragMode = None, dragStart = None, dragEnd = None, dragging = False,
      handlers = Map.empty, options = opts, listeners = [], next_hid = 0, trace = []\<rparr>"

definition emit :: "effect \<Rightarrow> state \<Rightarrow> state" where
  "emit fx s = s\<lparr>trace := trace s @ [fx]\<rparr>"

definition call :: "bool \<Rightarrow> effect \<Rightarrow> state \<Rightarrow> state" where
  \<comment> \<open>\<open>callback\<close> of chart.js: runs the function when there is one\<close>
  "call fn fx s = (if fn then emit fx s else s)"

subsection \<open>Listener registration\<close>

definition removeEventListener ::
  "target \<Rightarrow> string \<Rightarrow> nat \<Rightarrow> (target \<times> string \<times> nat) list \<Rightarrow> (target \<times> string \<times> nat) list" where
  "removeEventListener tgt ty h ls = filter (\<lambda>l. l \<noteq> (tgt, ty, h)) ls"

definition addEventListener ::
  "target \<Rightarrow> string \<Rightarrow> nat \<Rightarrow> (target \<times> string \<times> nat) list \<Rightarrow> (target \<times> string \<times> nat) list" where
  \<comment> \<open>the DOM ignores a listener that is registered already\<close>
  "addEventListener tgt ty h ls = (if (tgt, ty, h) \<in> set ls then ls else ls @ [(tgt, ty, h)])"

definition removeHandler :: "string \<Rightarrow> state \<Rightarrow> state" where
  "removeHandler ty s =
     (case handlers s ty of
        None \<Rightarrow> s
      | Some h \<Rightarrow>
          (case target h of
             None \<Rightarrow> s
           | Some tgt \<Rightarrow>
               s\<lparr>listeners := removeEventListener tgt ty (hid h) (listeners s),
                 handlers := (handlers s)(ty := None)\<rparr>))"

definition addHandler :: "target \<Rightarrow> string \<Rightarrow> listener \<Rightarrow> state \<Rightarrow> state" where
  "addHandler tgt ty fn s =
     (if (case handlers s ty of None \<Rightarrow> False | Some oldHandler \<Rightarrow> target oldHandler = Some tgt)
      then s
      else (let s1 = removeHandler ty s;
                h = \<lparr>target = Some tgt, hid = next_hid s1, wraps = fn\<rparr>
            in s1\<lparr>handlers := (handlers s1)(ty \<mapsto> h),
                  listeners := addEventListener tgt ty (hid h) (listeners s1),
                  next_hid := Suc (next_hid s1)\<rparr>))"

subsection \<open>Handlers\<close>

definition mouseMove :: "chart \<Rightarrow> event \<Rightarrow> state \<Rightarrow> state" where
  "mouseMove c e s =
     (if dragStart s \<noteq> None
      then emit (Update ''none'') (s\<lparr>dragging := True, dragEnd := Some e\<rparr>)
      else s)"

definition keyDown :: "chart \<Rightarrow> event \<Rightarrow> state \<Rightarrow> state" where
  "keyDown c e s =
     (if dragStart s = None \<or> key e \<noteq> ''Escape''
      then s
      else emit (Update ''none'')
             ((removeHandler ''keydown'' s)\<lparr>dragging := False, dragStart := None, dragEnd := None\<rparr>))"

definition zoomStart :: "chart \<Rightarrow> event \<Rightarrow> zoom_opts \<Rightarrow> state \<Rightarrow> bool \<times> state" where
  \<comment> \<open>the result is \<open>False\<close> where the function returns \<open>false\<close>, \<open>True\<close> where it returns nothing\<close>
  "zoomStart c e zo s =
     (case onZoomStart zo of
        None \<Rightarrow> (True, s)
      | Some startCallback \<Rightarrow>
          (let pt = getRelativePosition e;
               s1 = emit (CallOnZoomStart e pt) s
           in if startCallback e pt = False
              then (False, call (onZoomRejected zo) (CallOnZoomRejected e) s1)
              else (True, s1)))"

definition mouseDown :: "chart \<Rightarrow> event \<Rightarrow> state \<Rightarrow> state" where
  "mouseDown c e s =
     (let po = panOptions (options s);
          zo = zoomOptions (options s);
          ro = rangeOptions (options s)
      in if button e \<noteq> 0 \<or>
            keyPressed (getModifierKey po) e \<or>
            (keyNotPressed (getModifierKey ro) e \<and> keyNotPressed (getModifierKey (dragOptions zo)) e)
         then call (onZoomRejected zo) (CallOnZoomRejected e) s
         else (case zoomStart c e zo s of
                 (False, s1) \<Rightarrow> s1
               | (True, s1) \<Rightarrow>
                   (let s2 = (if keyPressed (getModifierKey (dragOptions zo)) e
                              then s1\<lparr>dragMode := Some DRAG\<rparr>
                              else if keyPressed (getModifierKey ro) e
                              then s1\<lparr>dragMode := Some RANGE\<rparr>
                              else s1);
                        s3 = s2\<lparr>dragStart := Some e\<rparr>;
                        s4 = addHandler (canvas c) ''mousemove'' MouseMove s3
                    in addHandler (windowDocument c) ''keydown'' KeyDown s4)))"

definition dragDistance :: "Mode \<Rightarrow> rect \<Rightarrow> real" where
  \<comment> \<open>\<open>distance\<close> of \<open>mouseUp\<close>\<close>
  "dragDistance m r =
     (let distanceX = (if directionEnabled m ''x'' then r_width r else 0);
          distanceY = (if directionEnabled m ''y'' then r_height r else 0)
      in sqrt (distanceX * distanceX + distanceY * distanceY))"

definition dragThreshold :: "state \<Rightarrow> real" where
  \<comment> \<open>\<open>drag: {threshold = 0}\<close> of \<open>state.options.zoom\<close>\<close>
  "dragThreshold s =
     (case threshold (dragOptions (zoomOptions (options s))) of None \<Rightarrow> 0 | Some t \<Rightarrow> t)"

definition gestureMode :: "state \<Rightarrow> Mode" where
  \<comment> \<open>\<open>mode\<close> of \<open>mouseUp\<close>\<close>
  "gestureMode s =
     (if dragMode s = Some RANGE then rangeMode (rangeOptions (options s))
      else zoomMode (zoomOptions (options s)))"

definition mouseUp :: "chart \<Rightarrow> event \<Rightarrow> state \<Rightarrow> error option \<times> state" where
  "mouseUp c e s =
     (case dragStart s of
        None \<Rightarrow> (None, s)
      | Some start \<Rightarrow>
          (let s1 = removeHandler ''mousemove'' s;
               zo = zoomOptions (options s1);
               ro = rangeOptions (options s1);
               m = gestureMode s1
           in case computeDragRect c m (dragMode s1) (mirroring ro) start e of
                Inl err \<Rightarrow> (Some err, s1)
              | Inr r \<Rightarrow>
                  (let distance = dragDistance m r;
                       s2 = s1\<lparr>dragStart := None, dragEnd := None\<rparr>
                   in if distance \<le> dragThreshold s1
                      then (None, emit (Update ''none'') (s2\<lparr>dragging := False, dragMode := None\<rparr>))
                      else (let s3 =
                                  (if dragMode s2 = Some DRAG
                                   then call (onZoomComplete zo) CallOnZoomComplete
                                          (emit (ZoomRect \<lparr>pt_x = r_left r, pt_y = r_top r\<rparr>
                                                          \<lparr>pt_x = r_right r, pt_y = r_bottom r\<rparr> ''zoom'') s2)
                                   else if dragMode s2 = Some RANGE
                                   then call (onRangeSelected ro) (CallOnRangeSelected (rangeDataIndex r)) s2
                                   else s2)
                            in (None, emit (SetTimeout 500) (s3\<lparr>dragMode := None\<rparr>))))))"

text \<open>
  The first component is the exception \<open>mouseUp\<close> ends with, if any; the state is the
  one it leaves, also when it throws.
\<close>

definition wheelPreconditions :: "chart \<Rightarrow> event \<Rightarrow> zoom_opts \<Rightarrow> state \<Rightarrow> bool \<times> state" where
  \<comment> \<open>the result is \<open>True\<close> where the function returns \<open>true\<close>, \<open>False\<close> where it returns nothing\<close>
  "wheelPreconditions c e zo s =
     (if keyNotPressed (getModifierKey (wheelOptions zo)) e
      then (False, call (onZoomRejected zo) (CallOnZoomRejected e) s)
      else (case zoomStart c e zo s of
              (False, s1) \<Rightarrow> (False, s1)
            | (True, s1) \<Rightarrow>
                (let s2 = (if cancelable e then emit PreventDefault s1 else s1)
                 in if deltaY e = None then (False, s2) else (True, s2))))"

definition wheel :: "chart \<Rightarrow> event \<Rightarrow> state \<Rightarrow> state" where
  "wheel c e s =
     (let zo = zoomOptions (options s)
      in case wheelPreconditions c e zo s of
           (False, s1) \<Rightarrow> s1
         | (True, s1) \<Rightarrow>
             (let sp = 1 + (if (case deltaY e of None \<Rightarrow> False | Some d \<Rightarrow> d \<ge> 0)
                            then - speed (wheelOptions zo) else speed (wheelOptions zo));
                  s2 = emit (Zoom sp sp \<lparr>pt_x = clientX e - rectLeft e,
                                          pt_y = clientY e - rectTop e\<rparr>) s1
              in if handlers s ''onZoomComplete'' \<noteq> None
                 then emit CallDebouncedZoomComplete s2
                 else s2))"

text \<open>
  \<open>event.deltaY >= 0\<close> is false for an \<open>undefined\<close> delta; \<open>wheel\<close> reads it only
  after \<open>wheelPreconditions\<close> returned \<open>true\<close>, where \<open>deltaY e\<close> is not \<open>None\<close>.
\<close>

subsection \<open>Sequences of handler calls\<close>

datatype input = Down event | Move event | Up event | Keydown event

definition step :: "chart \<Rightarrow> input \<Rightarrow> state \<Rightarrow> state" where
  "step c i s =
     (case i of
        Down e \<Rightarrow> mouseDown c e s
      | Move e \<Rightarrow> mouseMove c e s
      | Up e \<Rightarrow> snd (mouseUp c e s)
      | Keydown e \<Rightarrow> keyDown c e s)"

fun run :: "chart \<Rightarrow> input list \<Rightarrow> state \<Rightarrow> state" where
  "run c [] s = s"
| "run c (i # is) s = run c is (step c i s)"

text \<open>
  One input is one call of a handler by the browser. An exception of \<open>mouseUp\<close> ends
  that call only: the next input finds the state the call left.
\<close>

section \<open>Registered listeners\<close>

definition registered :: "string \<Rightarrow> state \<Rightarrow> (target \<times> string \<times> nat) list" where
  \<comment> \<open>the listeners of one event type that the DOM holds\<close>
  "registered ty s = filter (\<lambda>(tgt, ty', h). ty' = ty) (listeners s)"

definition tracked :: "string \<Rightarrow> state \<Rightarrow> bool" where
  \<comment> \<open>the DOM holds, for the event type, exactly the listener that \<open>handlers\<close> records\<close>
  "tracked ty s =
     (registered ty s =
        (case handlers s ty of
           None \<Rightarrow> []
         | Some h \<Rightarrow> (case target h of None \<Rightarrow> [] | Some tgt \<Rightarrow> [(tgt, ty, hid h)])))"

section \<open>Example inputs\<close>

definition exampleChart :: chart where
  \<comment> \<open>a plot area of 400 by 300 pixels, with scales \<open>x\<close> and \<open>y\<close>\<close>
  "exampleChart =
     \<lparr>chartArea = \<lparr>area_top = 0, area_left = 0, area_right = 400, area_bottom = 300,
                   area_width = 400, area_height = 300\<rparr>,
      scales = [''x'' \<mapsto> (\<lambda>p. p / 4), ''y'' \<mapsto> (\<lambda>p. 300 - p)],
      canvas = 1, ownerDocument = 2, windowDocument = 2\<rparr>"

definition mouseAt :: "real \<Rightarrow> real \<Rightarrow> event" where
  \<comment> \<open>a primary-button mouse event at a position of the chart, no modifier pressed\<close>
  "mouseAt px py =
     \<lparr>button = 0, ctrlKey = False, altKey = False, shiftKey = False, metaKey = False,
      key = [], relX = px, relY = py, cancelable = True, deltaY = None,
      clientX = px, clientY = py, rectLeft = 0, rectTop = 0\<rparr>"

definition ctrlAt :: "real \<Rightarrow> real \<Rightarrow> event" where
  \<comment> \<open>the same with the ctrl key held\<close>
  "ctrlAt px py = (mouseAt px py)\<lparr>ctrlKey := True\<rparr>"

definition escapeKey :: event where
  "escapeKey = (mouseAt 0 0)\<lparr>key := ''Escape''\<rparr>"

definition wheelAt :: "real \<Rightarrow> event" where
  \<comment> \<open>a wheel event with a delta, on a target whose bounding box starts at (20, 10)\<close>
  "wheelAt d = (mouseAt 120 90)\<lparr>deltaY := Some d, rectLeft := 20, rectTop := 10\<rparr>"

definition modifierOptions :: options where
  \<comment> \<open>pan on shift, drag-zoom on ctrl with threshold 10, range selection on alt, wheel free\<close>
  "modifierOptions =
     \<lparr>panOptions = \<lparr>enabled = True, modifierKey = Some Shift\<rparr>,
      zoomOptions =
        \<lparr>zoomMode = XY,
         wheelOptions = \<lparr>enabled = True, modifierKey = None, speed = 1 / 10\<rparr>,
         dragOptions = \<lparr>enabled = True, modifierKey = Some Ctrl, threshold = Some 10\<rparr>,
         onZoomComplete = True, onZoomRejected = True, onZoomStart = None\<rparr>,
      rangeOptions =
        \<lparr>enabled = True, modifierKey = Some Alt, rangeMode = X, mirroring = True,
         onRangeSelected = True\<rparr>\<rparr>"


definition startedDrag :: state where
  \<comment> \<open>after a mousedown with ctrl at (50, 50)\<close>
  "startedDrag = mouseDown exampleChart (ctrlAt 50 50) (initialState modifierOptions)"

definition pendingDrag :: state where
  \<comment> \<open>after the mousedown and a mousemove to (160, 170)\<close>
  "pendingDrag =
     run exampleChart [Down (ctrlAt 50 50), Move (ctrlAt 160 170)] (initialState modifierOptions)"

section \<open>The drag rectangle\<close>

lemma computeDragRect_ordered:
  assumes "area_left (chartArea c) \<le> area_right (chartArea c)"
    and "area_top (chartArea c) \<le> area_bottom (chartArea c)"
    and "computeDragRect c m dm mirror b e = Inr r"
  shows "r_left r \<le> r_right r \<and> r_top r \<le> r_bottom r"
  using assms
  by (auto simp: computeDragRect_def Let_def getRelativePosition_def
           split: if_splits option.splits)

lemma computeDragRect_returns:
  assumes "dm \<noteq> Some RANGE \<or> (scales c ''x'' \<noteq> None \<and> scales c ''y'' \<noteq> None)"
  shows "\<exists>r. computeDragRect c m dm mirror b e = Inr r"
  using assms
  by (auto simp: computeDragRect_def Let_def split: prod.splits option.splits)

lemma exampleChart_scales:
  "scales exampleChart ''x'' = Some (\<lambda>p. p / 4)"
  "scales exampleChart ''y'' = Some (\<lambda>p. 300 - p)"
  by (simp_all add: exampleChart_def)

lemma exampleChart_returns: "\<exists>r. computeDragRect exampleChart m dm mirror b e = Inr r"
  by (rule computeDragRect_returns) (simp add: exampleChart_scales)

text \<open>
  Claim C2. A range selection in direction \<open>x\<close> with mirroring doubles the dragged
  span: the rectangle is the span between the two points, extended by its own width
  beyond the point the drag started from, to the left when the start precedes the end
  and to the right otherwise. A drag from 100 to 150 gives left 50, right 150; a drag
  from 150 to 100 gives left 100, right 200; both have width 100.
\<close>

theorem computeDragRect_mirrored_x:
  assumes "computeDragRect c X (Some RANGE) True b e = Inr r"
  shows "r_width r = 2 * \<bar>relX e - relX b\<bar> \<and>
    (relX b < relX e \<longrightarrow>
       r_left r = relX b - (relX e - relX b) \<and> r_right r = relX e) \<and>
    (\<not> relX b < relX e \<longrightarrow>
       r_left r = relX e \<and> r_right r = relX b + (relX b - relX e)) \<and>
    (relX b = 100 \<and> relX e = 150 \<longrightarrow>
       r_left r = 50 \<and> r_right r = 150 \<and> r_width r = 100) \<and>
    (relX b = 150 \<and> relX e = 100 \<longrightarrow>
       r_left r = 100 \<and> r_right r = 200 \<and> r_width r = 100)"
  using assms
  by (auto simp: computeDragRect_def Let_def getRelativePosition_def directionEnabled_def
           split: if_splits option.splits)

theorem computeDragRect_mirrored_x_witness:
  "(\<exists>r. computeDragRect exampleChart X (Some RANGE) True (mouseAt 100 80) (mouseAt 150 90) = Inr r
        \<and> r_left r = 50 \<and> r_right r = 150 \<and> r_width r = 100) \<and>
   (\<exists>r. computeDragRect exampleChart X (Some RANGE) True (mouseAt 150 80) (mouseAt 100 90) = Inr r
        \<and> r_left r = 100 \<and> r_right r = 200 \<and> r_width r = 100)"
proof -
  obtain r1 where r1:
    "computeDragRect exampleChart X (Some RANGE) True (mouseAt 100 80) (mouseAt 150 90) = Inr r1"
    using exampleChart_returns by blast
  obtain r2 where r2:
    "computeDragRect exampleChart X (Some RANGE) True (mouseAt 150 80) (mouseAt 100 90) = Inr r2"
    using exampleChart_returns by blast
  have "r_left r1 = 50 \<and> r_right r1 = 150 \<and> r_width r1 = 100"
    using computeDragRect_mirrored_x [OF r1] by (simp add: mouseAt_def)
  moreover have "r_left r2 = 100 \<and> r_right r2 = 200 \<and> r_width r2 = 100"
    using computeDragRect_mirrored_x [OF r2] by (simp add: mouseAt_def)
  ultimately show ?thesis using r1 r2 by simp
qed

text \<open>
  Claim C3. In mode \<open>xy\<close>, for every gesture kind and with or without mirroring, the
  rectangle of two points has \<open>left \<le> right\<close> and \<open>top \<le> bottom\<close>, in whichever
  order the two points are given, on a chart whose plot area is ordered itself.
\<close>

theorem computeDragRect_xy_ordered:
  assumes "area_left (chartArea c) \<le> area_right (chartArea c)"
    and "area_top (chartArea c) \<le> area_bottom (chartArea c)"
  shows "(\<forall>r. computeDragRect c XY dm mirror p1 p2 = Inr r \<longrightarrow>
            r_left r \<le> r_right r \<and> r_top r \<le> r_bottom r) \<and>
         (\<forall>r. computeDragRect c XY dm mirror p2 p1 = Inr r \<longrightarrow>
            r_left r \<le> r_right r \<and> r_top r \<le> r_bottom r)"
  using assms computeDragRect_ordered by blast

theorem computeDragRect_xy_ordered_witness:
  "(\<exists>r. computeDragRect exampleChart XY (Some RANGE) True (mouseAt 160 170) (mouseAt 50 50) = Inr r
        \<and> r_left r \<le> r_right r \<and> r_top r \<le> r_bottom r) \<and>
   (\<exists>r. computeDragRect exampleChart XY (Some DRAG) False (mouseAt 50 50) (mouseAt 160 170) = Inr r
        \<and> r_left r \<le> r_right r \<and> r_top r \<le> r_bottom r)"
proof -
  have a: "area_left (chartArea exampleChart) \<le> area_right (chartArea exampleChart)"
    and b: "area_top (chartArea exampleChart) \<le> area_bottom (chartArea exampleChart)"
    by (simp_all add: exampleChart_def)
  obtain r1 where r1:
    "computeDragRect exampleChart XY (Some RANGE) True (mouseAt 160 170) (mouseAt 50 50) = Inr r1"
    using exampleChart_returns by blast
  obtain r2 where r2:
    "computeDragRect exampleChart XY (Some DRAG) False (mouseAt 50 50) (mouseAt 160 170) = Inr r2"
    using exampleChart_returns by blast
  show ?thesis
    using computeDragRect_xy_ordered [OF a b, of "Some RANGE" True "mouseAt 160 170" "mouseAt 50 50"]
      computeDragRect_xy_ordered [OF a b, of "Some DRAG" False "mouseAt 50 50" "mouseAt 160 170"]
      r1 r2
    by simp
qed

text \<open>
  Claim C10. A range computation reads the scales named \<open>x\<close> and \<open>y\<close> whatever the
  mode enables: it returns a rectangle exactly when the chart has both scales, and
  then \<open>rangeDataIndex\<close> holds both the \<open>x\<close> entry (left, right) and the \<open>y\<close> entry
  (top, bottom), the values of the rectangle's four edges; without one of the scales it
  throws.
\<close>

theorem computeDragRect_range_needs_scales:
  "((\<exists>r. computeDragRect c m (Some RANGE) mirror b e = Inr r) \<longleftrightarrow>
      scales c ''x'' \<noteq> None \<and> scales c ''y'' \<noteq> None) \<and>
   ((scales c ''x'' = None \<or> scales c ''y'' = None) \<longrightarrow>
      computeDragRect c m (Some RANGE) mirror b e = Inl TypeError) \<and>
   (\<forall>r. computeDragRect c m (Some RANGE) mirror b e = Inr r \<longrightarrow>
      (\<exists>fx fy. scales c ''x'' = Some fx \<and> scales c ''y'' = Some fy \<and>
         rangeDataIndex r =
           Some \<lparr>x_left = fx (r_left r), x_right = fx (r_right r),
                 y_top = fy (r_top r), y_bottom = fy (r_bottom r)\<rparr>))"
  by (auto simp: computeDragRect_def Let_def split: if_splits option.splits prod.splits)

theorem computeDragRect_range_needs_scales_witness:
  "(\<exists>r. computeDragRect exampleChart Y (Some RANGE) True (mouseAt 100 80) (mouseAt 140 120) = Inr r
        \<and> rangeDataIndex r = Some \<lparr>x_left = 0, x_right = 100, y_top = 260, y_bottom = 180\<rparr>) \<and>
   computeDragRect (exampleChart\<lparr>scales := [''y'' \<mapsto> (\<lambda>p. p)]\<rparr>) Y (Some RANGE) True
       (mouseAt 100 80) (mouseAt 140 120) = Inl TypeError"
proof -
  let ?c = "exampleChart\<lparr>scales := [''y'' \<mapsto> (\<lambda>p. p)]\<rparr>"
  obtain r1 where r1:
    "computeDragRect exampleChart Y (Some RANGE) True (mouseAt 100 80) (mouseAt 140 120) = Inr r1"
    using exampleChart_returns by blast
  have "r_left r1 = 0 \<and> r_right r1 = 400 \<and> r_top r1 = 40 \<and> r_bottom r1 = 120"
    using r1
    by (auto simp: computeDragRect_def exampleChart_def mouseAt_def Let_def
          getRelativePosition_def directionEnabled_def)
  then have "rangeDataIndex r1 = Some \<lparr>x_left = 0, x_right = 100, y_top = 260, y_bottom = 180\<rparr>"
    using computeDragRect_range_needs_scales [of exampleChart Y True "mouseAt 100 80" "mouseAt 140 120"] r1
    by (auto simp: exampleChart_scales)
  moreover have "scales ?c ''x'' = None"
    by (simp add: exampleChart_def)
  then have "computeDragRect ?c Y (Some RANGE) True (mouseAt 100 80) (mouseAt 140 120) = Inl TypeError"
    using computeDragRect_range_needs_scales [of ?c Y True "mouseAt 100 80" "mouseAt 140 120"]
    by blast
  ultimately show ?thesis using r1 by simp
qed

section \<open>Listener registration\<close>

lemma removeHandler_absent: "handlers s ty = None \<Longrightarrow> removeHandler ty s = s"
  by (simp add: removeHandler_def)

lemma removeHandler_idem: "removeHandler ty (removeHandler ty s) = removeHandler ty s"
  by (simp add: removeHandler_def split: option.splits)

lemma addHandler_twice: "addHandler tgt ty f2 (addHandler tgt ty f1 s) = addHandler tgt ty f1 s"
  by (simp add: addHandler_def Let_def split: option.splits)

lemma filter_removeEventListener:
  "filter P (removeEventListener tgt ty h ls) = removeEventListener tgt ty h (filter P ls)"
  by (simp add: removeEventListener_def conj_commute)

lemma registered_removeHandler:
  "tracked ty s \<Longrightarrow> registered ty (removeHandler ty s) = []"
  by (auto simp: tracked_def registered_def removeHandler_def filter_removeEventListener
        split: option.splits) (simp add: removeEventListener_def)

lemma registered_removeHandler_other:
  "ty' \<noteq> ty \<Longrightarrow> registered ty' (removeHandler ty s) = registered ty' s"
  by (auto simp: registered_def removeHandler_def removeEventListener_def
        split: option.splits intro!: filter_cong)

lemma handlers_removeHandler:
  "handlers (removeHandler ty s) ty = (case handlers s ty of None \<Rightarrow> None
      | Some h \<Rightarrow> (case target h of None \<Rightarrow> Some h | Some tgt \<Rightarrow> None))"
  by (simp add: removeHandler_def split: option.splits)

lemma next_hid_removeHandler: "next_hid (removeHandler ty s) = next_hid s"
  by (simp add: removeHandler_def split: option.splits)

lemma registered_addEventListener:
  "filter (\<lambda>(t, ty', h). ty' = ty) ls = [] \<Longrightarrow>
   filter (\<lambda>(t, ty', h). ty' = ty) (addEventListener tgt ty h ls) = [(tgt, ty, h)]"
  by (auto simp: addEventListener_def filter_empty_conv)

lemma registered_addHandler:
  assumes "tracked ty s"
  shows "registered ty (addHandler tgt ty f s) =
     (case handlers s ty of
        None \<Rightarrow> [(tgt, ty, next_hid s)]
      | Some h \<Rightarrow> if target h = Some tgt then [(tgt, ty, hid h)] else [(tgt, ty, next_hid s)])"
proof (cases "case handlers s ty of None \<Rightarrow> False | Some oldHandler \<Rightarrow> target oldHandler = Some tgt")
  case True
  then show ?thesis using assms
    by (auto simp: addHandler_def tracked_def split: option.splits)
next
  case False
  have "registered ty (removeHandler ty s) = []"
    using assms by (rule registered_removeHandler)
  then have "registered ty (addHandler tgt ty f s) = [(tgt, ty, next_hid s)]"
    using False
    by (simp add: addHandler_def Let_def registered_def registered_addEventListener
          next_hid_removeHandler)
  then show ?thesis using False by (auto split: option.splits)
qed

lemma tracked_initialState: "tracked ty (initialState opts)"
  by (simp add: tracked_def registered_def initialState_def)

lemma tracked_removeHandler: "tracked ty' s \<Longrightarrow> tracked ty' (removeHandler ty s)"
proof (cases "ty' = ty")
  case True
  assume "tracked ty' s"
  then show ?thesis using True registered_removeHandler [of ty s]
    by (auto simp: tracked_def handlers_removeHandler split: option.splits)
next
  case False
  assume "tracked ty' s"
  then show ?thesis using False registered_removeHandler_other [of ty' ty s]
    by (auto simp: tracked_def removeHandler_def split: option.splits)
qed

lemma tracked_addHandler: "tracked ty' s \<Longrightarrow> tracked ty' (addHandler tgt ty f s)"
proof (cases "ty' = ty")
  case True
  assume "tracked ty' s"
  then show ?thesis using True registered_addHandler [of ty s tgt f]
    by (auto simp: tracked_def addHandler_def Let_def next_hid_removeHandler split: option.splits)
next
  case False
  assume t: "tracked ty' s"
  have "registered ty' (addHandler tgt ty f s) = registered ty' s"
    using False registered_removeHandler_other [of ty' ty s]
    by (auto simp: addHandler_def Let_def registered_def addEventListener_def split: option.splits)
  moreover have "handlers (addHandler tgt ty f s) ty' = handlers s ty'"
    using False by (auto simp: addHandler_def Let_def removeHandler_def split: option.splits)
  ultimately show ?thesis using t by (simp add: tracked_def)
qed

lemma removeHandler_fields [simp]:
  "dragMode (removeHandler ty s) = dragMode s"
  "dragStart (removeHandler ty s) = dragStart s"
  "dragEnd (removeHandler ty s) = dragEnd s"
  "dragging (removeHandler ty s) = dragging s"
  "options (removeHandler ty s) = options s"
  "next_hid (removeHandler ty s) = next_hid s"
  "trace (removeHandler ty s) = trace s"
  by (simp_all add: removeHandler_def split: option.splits)

lemma tracked_fields [simp]:
  "tracked ty (s\<lparr>dragMode := dm\<rparr>) = tracked ty s"
  "tracked ty (s\<lparr>dragStart := ds\<rparr>) = tracked ty s"
  "tracked ty (s\<lparr>dragEnd := de\<rparr>) = tracked ty s"
  "tracked ty (s\<lparr>dragging := dg\<rparr>) = tracked ty s"
  "tracked ty (s\<lparr>trace := tr\<rparr>) = tracked ty s"
  by (simp_all add: tracked_def registered_def)

lemma tracked_emit [simp]: "tracked ty (emit fx s) = tracked ty s"
  by (simp add: emit_def)

lemma tracked_call [simp]: "tracked ty (call fn fx s) = tracked ty s"
  by (simp add: call_def)

lemma tracked_zoomStart: "zoomStart c e zo s = (b, s1) \<Longrightarrow> tracked ty s1 = tracked ty s"
  by (auto simp: zoomStart_def Let_def split: option.splits if_splits)

lemma tracked_mouseDown: "tracked ty s \<Longrightarrow> tracked ty (mouseDown c e s)"
proof -
  assume t: "tracked ty s"
  obtain b s1 where z: "zoomStart c e (zoomOptions (options s)) s = (b, s1)"
    by (cases "zoomStart c e (zoomOptions (options s)) s")
  have s1: "tracked ty s1"
    using t tracked_zoomStart [OF z] by simp
  show ?thesis
    using t s1 z
    by (cases b) (simp_all add: mouseDown_def Let_def tracked_addHandler)
qed


lemma tracked_mouseUp: "tracked ty s \<Longrightarrow> tracked ty (snd (mouseUp c e s))"
proof -
  assume t: "tracked ty s"
  then have "tracked ty (removeHandler ''mousemove'' s)"
    by (rule tracked_removeHandler)
  then show ?thesis
    using t by (simp add: mouseUp_def Let_def split: option.splits sum.splits)
qed

lemma tracked_step: "tracked ty s \<Longrightarrow> tracked ty (step c i s)"
proof (cases i)
  case (Down e)
  assume "tracked ty s"
  then show ?thesis using Down by (simp add: step_def tracked_mouseDown)
next
  case (Move e)
  assume "tracked ty s"
  then show ?thesis using Move by (simp add: step_def mouseMove_def)
next
  case (Up e)
  assume "tracked ty s"
  then show ?thesis using Up by (simp add: step_def tracked_mouseUp)
next
  case (Keydown e)
  assume t: "tracked ty s"
  then have "tracked ty (removeHandler ''keydown'' s)"
    by (rule tracked_removeHandler)
  then show ?thesis using Keydown t by (simp add: step_def keyDown_def)
qed

lemma tracked_run: "tracked ty s \<Longrightarrow> tracked ty (run c inputs s)"
  by (induction inputs arbitrary: s) (simp_all add: tracked_step)

text \<open>
  \<open>tracked\<close> holds in the initial state and every handler keeps it, so it holds in
  every state the handlers reach.
\<close>

text \<open>
  Claim C8. Attaching twice to the same target and event type is the same as attaching
  once, and leaves exactly one listener of that type registered. Attaching the type to
  another target first removes the listener of the old target, then registers the new
  one. Removing a type that has no handler changes nothing, and removing twice is
  removing once.
\<close>

theorem listener_registration_idempotent:
  assumes "tracked ty s"
  shows "addHandler tgt ty f2 (addHandler tgt ty f1 s) = addHandler tgt ty f1 s \<and>
    length (registered ty (addHandler tgt ty f2 (addHandler tgt ty f1 s))) = 1 \<and>
    (\<forall>h old. handlers s ty = Some h \<and> target h = Some old \<and> old \<noteq> tgt \<longrightarrow>
       (old, ty, hid h) \<in> set (listeners s) \<and>
       (old, ty, hid h) \<notin> set (listeners (removeHandler ty s)) \<and>
       addHandler tgt ty f1 s =
         (let s1 = removeHandler ty s
          in s1\<lparr>handlers := (handlers s1)(ty \<mapsto> \<lparr>target = Some tgt, hid = next_hid s1, wraps = f1\<rparr>),
                listeners := listeners s1 @ [(tgt, ty, next_hid s1)],
                next_hid := Suc (next_hid s1)\<rparr>) \<and>
       registered ty (addHandler tgt ty f1 s) = [(tgt, ty, next_hid s)]) \<and>
    (handlers s ty = None \<longrightarrow> removeHandler ty s = s) \<and>
    removeHandler ty (removeHandler ty s) = removeHandler ty s"
proof -
  have one: "length (registered ty (addHandler tgt ty f2 (addHandler tgt ty f1 s))) = 1"
    using registered_addHandler [OF assms, of tgt f1]
    by (simp add: addHandler_twice split: option.splits if_splits)
  have other: "(old, ty, hid h) \<in> set (listeners s) \<and>
       (old, ty, hid h) \<notin> set (listeners (removeHandler ty s)) \<and>
       addHandler tgt ty f1 s =
         (let s1 = removeHandler ty s
          in s1\<lparr>handlers := (handlers s1)(ty \<mapsto> \<lparr>target = Some tgt, hid = next_hid s1, wraps = f1\<rparr>),
                listeners := listeners s1 @ [(tgt, ty, next_hid s1)],
                next_hid := Suc (next_hid s1)\<rparr>) \<and>
       registered ty (addHandler tgt ty f1 s) = [(tgt, ty, next_hid s)]"
    if h: "handlers s ty = Some h" "target h = Some old" "old \<noteq> tgt" for h old
  proof -
    have "registered ty s = [(old, ty, hid h)]"
      using assms h by (simp add: tracked_def)
    then have "(old, ty, hid h) \<in> set (registered ty s)" by simp
    then have a: "(old, ty, hid h) \<in> set (listeners s)"
      by (simp add: registered_def)
    have b: "(old, ty, hid h) \<notin> set (listeners (removeHandler ty s))"
      using h by (simp add: removeHandler_def removeEventListener_def)
    have "registered ty (removeHandler ty s) = []"
      using assms by (rule registered_removeHandler)
    then have "(tgt, ty, next_hid (removeHandler ty s)) \<notin> set (listeners (removeHandler ty s))"
      by (auto simp: registered_def filter_empty_conv)
    then have c: "addHandler tgt ty f1 s =
         (let s1 = removeHandler ty s
          in s1\<lparr>handlers := (handlers s1)(ty \<mapsto> \<lparr>target = Some tgt, hid = next_hid s1, wraps = f1\<rparr>),
                listeners := listeners s1 @ [(tgt, ty, next_hid s1)],
                next_hid := Suc (next_hid s1)\<rparr>)"
      using h by (simp add: addHandler_def Let_def addEventListener_def)
    have d: "registered ty (addHandler tgt ty f1 s) = [(tgt, ty, next_hid s)]"
      using registered_addHandler [OF assms, of tgt f1] h by simp
    show ?thesis using a b c d by blast
  qed
  have twice: "addHandler tgt ty f2 (addHandler tgt ty f1 s) = addHandler tgt ty f1 s"
    by (rule addHandler_twice)
  have absent: "handlers s ty = None \<longrightarrow> removeHandler ty s = s"
    by (simp add: removeHandler_absent)
  have idem: "removeHandler ty (removeHandler ty s) = removeHandler ty s"
    by (rule removeHandler_idem)
  have changed: "\<forall>h old. handlers s ty = Some h \<and> target h = Some old \<and> old \<noteq> tgt \<longrightarrow>
       (old, ty, hid h) \<in> set (listeners s) \<and>
       (old, ty, hid h) \<notin> set (listeners (removeHandler ty s)) \<and>
       addHandler tgt ty f1 s =
         (let s1 = removeHandler ty s
          in s1\<lparr>handlers := (handlers s1)(ty \<mapsto> \<lparr>target = Some tgt, hid = next_hid s1, wraps = f1\<rparr>),
                listeners := listeners s1 @ [(tgt, ty, next_hid s1)],
                next_hid := Suc (next_hid s1)\<rparr>) \<and>
       registered ty (addHandler tgt ty f1 s) = [(tgt, ty, next_hid s)]"
    using other by blast
  show ?thesis
    by (intro conjI twice one changed absent idem)
qed

theorem listener_registration_idempotent_witness:
  "length (registered ''mousemove''
      (addHandler 1 ''mousemove'' MouseMove
         (addHandler 1 ''mousemove'' MouseMove (initialState modifierOptions)))) = 1 \<and>
   registered ''mousemove''
      (addHandler 2 ''mousemove'' MouseMove
         (addHandler 1 ''mousemove'' MouseMove (initialState modifierOptions))) =
     [(2, ''mousemove'', 1)] \<and>
   removeHandler ''wheel'' (initialState modifierOptions) = initialState modifierOptions"
proof -
  let ?s0 = "initialState modifierOptions"
  let ?s1 = "addHandler 1 ''mousemove'' MouseMove ?s0"
  have t0: "tracked ''mousemove'' ?s0" by (rule tracked_initialState)
  have t0': "tracked ''wheel'' ?s0" by (rule tracked_initialState)
  have t1: "tracked ''mousemove'' ?s1" using t0 by (rule tracked_addHandler)
  have h: "handlers ?s1 ''mousemove'' = Some \<lparr>target = Some 1, hid = 0, wraps = MouseMove\<rparr>"
    and n: "next_hid ?s1 = 1"
    by (simp_all add: addHandler_def removeHandler_def initialState_def Let_def)
  have a: "length (registered ''mousemove'' (addHandler 1 ''mousemove'' MouseMove ?s1)) = 1"
    using listener_registration_idempotent [OF t0, of 1 MouseMove MouseMove] by blast
  have b: "registered ''mousemove'' (addHandler 2 ''mousemove'' MouseMove ?s1) = [(2, ''mousemove'', 1)]"
    using listener_registration_idempotent [OF t1, of 2 MouseMove MouseMove] h n by auto
  have c: "removeHandler ''wheel'' ?s0 = ?s0"
    using listener_registration_idempotent [OF t0', of 1 Wheel Wheel]
    by (simp add: initialState_def)
  show ?thesis using a b c by simp
qed

section \<open>The handlers\<close>

lemma addHandler_fields [simp]:
  "dragMode (addHandler tgt ty fn s) = dragMode s"
  "dragStart (addHandler tgt ty fn s) = dragStart s"
  "dragEnd (addHandler tgt ty fn s) = dragEnd s"
  "dragging (addHandler tgt ty fn s) = dragging s"
  "options (addHandler tgt ty fn s) = options s"
  "trace (addHandler tgt ty fn s) = trace s"
  by (simp_all add: addHandler_def Let_def)

lemma zoomStart_fields:
  assumes "zoomStart c e zo s = (b, s1)"
  shows "dragMode s1 = dragMode s" "dragStart s1 = dragStart s" "dragEnd s1 = dragEnd s"
    "dragging s1 = dragging s" "options s1 = options s"
    "handlers s1 = handlers s" "listeners s1 = listeners s"
  using assms
  by (auto simp: zoomStart_def Let_def emit_def call_def split: option.splits if_splits)

lemma mouseDown_dragEnd: "dragEnd (mouseDown c e s) = dragEnd s"
proof -
  obtain b s1 where z: "zoomStart c e (zoomOptions (options s)) s = (b, s1)"
    by (cases "zoomStart c e (zoomOptions (options s)) s")
  show ?thesis
    using z zoomStart_fields(3) [OF z]
    by (cases b) (simp_all add: mouseDown_def Let_def call_def emit_def)
qed

lemma mouseDown_dragStart: "dragStart s \<noteq> None \<Longrightarrow> dragStart (mouseDown c e s) \<noteq> None"
proof -
  assume a: "dragStart s \<noteq> None"
  obtain b s1 where z: "zoomStart c e (zoomOptions (options s)) s = (b, s1)"
    by (cases "zoomStart c e (zoomOptions (options s)) s")
  show ?thesis
    using a z zoomStart_fields(2) [OF z]
    by (cases b) (simp_all add: mouseDown_def Let_def call_def emit_def)
qed

lemma step_dragEnd_needs_dragStart:
  assumes "dragStart s = None \<Longrightarrow> dragEnd s = None"
    and "dragStart (step c i s) = None"
  shows "dragEnd (step c i s) = None"
proof (cases i)
  case (Down e)
  then show ?thesis
    using assms mouseDown_dragEnd [of c e s] mouseDown_dragStart [of s c e]
    by (auto simp: step_def)
next
  case (Move e)
  then show ?thesis using assms by (auto simp: step_def mouseMove_def emit_def split: if_splits)
next
  case (Up e)
  then show ?thesis using assms
    by (auto simp: step_def mouseUp_def Let_def emit_def call_def
          split: option.splits sum.splits if_splits)
next
  case (Keydown e)
  then show ?thesis using assms by (auto simp: step_def keyDown_def emit_def split: if_splits)
qed

lemma run_dragEnd_needs_dragStart:
  assumes "dragStart s = None \<Longrightarrow> dragEnd s = None"
    and "dragStart (run c inputs s) = None"
  shows "dragEnd (run c inputs s) = None"
  using assms
proof (induction inputs arbitrary: s)
  case Nil
  then show ?case by simp
next
  case (Cons i inputs)
  show ?case
    using Cons.IH [of "step c i s"] Cons.prems step_dragEnd_needs_dragStart [of s c i]
    by auto
qed

lemma pendingDrag_fields:
  "dragStart pendingDrag = Some (ctrlAt 50 50)"
  "dragEnd pendingDrag = Some (ctrlAt 160 170)"
  "dragMode pendingDrag = Some DRAG"
  "dragging pendingDrag = True"
  "options pendingDrag = modifierOptions"
  "trace pendingDrag = [Update ''none'']"
  by (simp_all add: pendingDrag_def step_def mouseDown_def mouseMove_def zoomStart_def
        initialState_def modifierOptions_def ctrlAt_def mouseAt_def keyPressed_def
        keyNotPressed_def getModifierKey_def modifier_down_def addHandler_def
        removeHandler_def addEventListener_def emit_def call_def Let_def)

lemma pendingDrag_mode:
  "gestureMode pendingDrag = XY"
  "dragThreshold pendingDrag = 10"
  "mirroring (rangeOptions modifierOptions) = True"
  "onZoomComplete (zoomOptions modifierOptions) = True"
  by (simp_all add: gestureMode_def dragThreshold_def pendingDrag_fields modifierOptions_def)

lemma example_rect:
  assumes "computeDragRect exampleChart XY (Some DRAG) True (ctrlAt 50 50) (ctrlAt ex ey) = Inr r"
    and "50 \<le> ex" and "50 \<le> ey"
  shows "r_left r = 50 \<and> r_top r = 50 \<and> r_right r = ex \<and> r_bottom r = ey \<and>
         r_width r = ex - 50 \<and> r_height r = ey - 50"
  using assms
  by (auto simp: computeDragRect_def Let_def getRelativePosition_def directionEnabled_def
        ctrlAt_def mouseAt_def)

lemma startedDrag_eval:
  "startedDrag =
     \<lparr>dragMode = Some DRAG, dragStart = Some (ctrlAt 50 50), dragEnd = None, dragging = False,
      handlers = [''mousemove'' \<mapsto> \<lparr>target = Some 1, hid = 0, wraps = MouseMove\<rparr>,
                  ''keydown'' \<mapsto> \<lparr>target = Some 2, hid = 1, wraps = KeyDown\<rparr>],
      options = modifierOptions,
      listeners = [(1, ''mousemove'', 0), (2, ''keydown'', 1)], next_hid = 2, trace = []\<rparr>"
  by (simp add: startedDrag_def mouseDown_def zoomStart_def exampleChart_def
        initialState_def modifierOptions_def ctrlAt_def mouseAt_def keyPressed_def
        keyNotPressed_def getModifierKey_def modifier_down_def addHandler_def
        removeHandler_def addEventListener_def emit_def call_def Let_def)

text \<open>
  Claim C1. At the end of a gesture (\<open>mouseUp\<close> while \<open>dragStart\<close> is set), with the
  distance taken from the computed rectangle: a distance up to the threshold ends the
  gesture as a no-op, \<open>dragStart\<close>, \<open>dragEnd\<close>, \<open>dragMode\<close> and \<open>dragging\<close> are cleared,
  the chart is redrawn, and neither \<open>zoomRect\<close> nor a completion callback runs; a
  distance above the threshold in drag mode calls \<open>zoomRect\<close> once, with the corners
  (left, top) and (right, bottom), and then \<open>onZoomComplete\<close> once, when that callback
  is configured. Outside range mode the rectangle is always computed.
\<close>

theorem mouseUp_threshold:
  assumes "dragStart s = Some start"
  shows "(\<forall>r. computeDragRect c (gestureMode s) (dragMode s)
               (mirroring (rangeOptions (options s))) start e = Inr r \<longrightarrow>
          (dragDistance (gestureMode s) r \<le> dragThreshold s \<longrightarrow>
             mouseUp c e s =
               (None, (removeHandler ''mousemove'' s)
                  \<lparr>dragStart := None, dragEnd := None, dragging := False, dragMode := None,
                   trace := trace s @ [Update ''none'']\<rparr>)) \<and>
          (dragDistance (gestureMode s) r > dragThreshold s \<and> dragMode s = Some DRAG \<longrightarrow>
             mouseUp c e s =
               (None, (removeHandler ''mousemove'' s)
                  \<lparr>dragStart := None, dragEnd := None, dragMode := None,
                   trace := trace s @
                     [ZoomRect \<lparr>pt_x = r_left r, pt_y = r_top r\<rparr>
                               \<lparr>pt_x = r_right r, pt_y = r_bottom r\<rparr> ''zoom''] @
                     (if onZoomComplete (zoomOptions (options s)) then [CallOnZoomComplete] else []) @
                     [SetTimeout 500]\<rparr>))) \<and>
         (dragMode s \<noteq> Some RANGE \<longrightarrow>
            (\<exists>r. computeDragRect c (gestureMode s) (dragMode s)
                   (mirroring (rangeOptions (options s))) start e = Inr r))"
proof -
  have "\<exists>r. computeDragRect c (gestureMode s) (dragMode s)
                   (mirroring (rangeOptions (options s))) start e = Inr r"
    if "dragMode s \<noteq> Some RANGE"
    using that by (simp add: computeDragRect_returns)
  then show ?thesis
    using assms
    by (auto simp: mouseUp_def Let_def emit_def call_def gestureMode_def dragThreshold_def)
qed

theorem mouseUp_threshold_witness:
  "snd (mouseUp exampleChart (ctrlAt 160 170) pendingDrag) =
     (removeHandler ''mousemove'' pendingDrag)
       \<lparr>dragStart := None, dragEnd := None, dragMode := None,
        trace := [Update ''none'',
                  ZoomRect \<lparr>pt_x = 50, pt_y = 50\<rparr> \<lparr>pt_x = 160, pt_y = 170\<rparr> ''zoom'',
                  CallOnZoomComplete, SetTimeout 500]\<rparr> \<and>
   snd (mouseUp exampleChart (ctrlAt 56 58) pendingDrag) =
     (removeHandler ''mousemove'' pendingDrag)
       \<lparr>dragStart := None, dragEnd := None, dragging := False, dragMode := None,
        trace := [Update ''none'', Update ''none'']\<rparr>"
proof -
  obtain r1 where r1:
    "computeDragRect exampleChart XY (Some DRAG) True (ctrlAt 50 50) (ctrlAt 160 170) = Inr r1"
    using exampleChart_returns by blast
  obtain r2 where r2:
    "computeDragRect exampleChart XY (Some DRAG) True (ctrlAt 50 50) (ctrlAt 56 58) = Inr r2"
    using exampleChart_returns by blast
  have f1: "r_left r1 = 50 \<and> r_top r1 = 50 \<and> r_right r1 = 160 \<and> r_bottom r1 = 170 \<and>
            r_width r1 = 110 \<and> r_height r1 = 120"
    using example_rect [OF r1] by simp
  have f2: "r_width r2 = 6 \<and> r_height r2 = 8"
    using example_rect [OF r2] by simp
  have "(10::real)\<^sup>2 < 110 * 110 + 120 * 120" by simp
  then have d1: "dragDistance XY r1 > 10"
    using f1 by (simp add: dragDistance_def directionEnabled_def real_less_rsqrt)
  have "(6 * 6 + 8 * 8 :: real) \<le> 10\<^sup>2" by simp
  then have d2: "dragDistance XY r2 \<le> 10"
    using f2 by (simp add: dragDistance_def directionEnabled_def real_le_lsqrt)
  have a: "computeDragRect exampleChart (gestureMode pendingDrag) (dragMode pendingDrag)
             (mirroring (rangeOptions (options pendingDrag))) (ctrlAt 50 50) (ctrlAt 160 170) = Inr r1"
    using r1 by (simp add: pendingDrag_mode pendingDrag_fields)
  have b: "computeDragRect exampleChart (gestureMode pendingDrag) (dragMode pendingDrag)
             (mirroring (rangeOptions (options pendingDrag))) (ctrlAt 50 50) (ctrlAt 56 58) = Inr r2"
    using r2 by (simp add: pendingDrag_mode pendingDrag_fields)
  have "snd (mouseUp exampleChart (ctrlAt 160 170) pendingDrag) =
     (removeHandler ''mousemove'' pendingDrag)
       \<lparr>dragStart := None, dragEnd := None, dragMode := None,
        trace := [Update ''none'',
                  ZoomRect \<lparr>pt_x = 50, pt_y = 50\<rparr> \<lparr>pt_x = 160, pt_y = 170\<rparr> ''zoom'',
                  CallOnZoomComplete, SetTimeout 500]\<rparr>"
    using mouseUp_threshold [OF pendingDrag_fields(1), of exampleChart "ctrlAt 160 170"] a d1 f1
    by (simp add: pendingDrag_mode pendingDrag_fields)
  moreover have "snd (mouseUp exampleChart (ctrlAt 56 58) pendingDrag) =
     (removeHandler ''mousemove'' pendingDrag)
       \<lparr>dragStart := None, dragEnd := None, dragging := False, dragMode := None,
        trace := [Update ''none'', Update ''none'']\<rparr>"
    using mouseUp_threshold [OF pendingDrag_fields(1), of exampleChart "ctrlAt 56 58"] b d2
    by (simp add: pendingDrag_mode pendingDrag_fields)
  ultimately show ?thesis by simp
qed

text \<open>
  Claim C4, at the input where the invariant fails. A mousedown with the drag
  modifier sets \<open>dragMode\<close> to \<open>DRAG\<close>; the Escape key then clears \<open>dragStart\<close> and
  \<open>dragEnd\<close> and leaves \<open>dragMode\<close> as it is, so \<open>dragMode\<close> is not \<open>None\<close> while both
  are null. (\<open>mouseUp\<close> resets \<open>dragMode\<close> on both of its paths; the first half of the
  invariant, \<open>dragEnd\<close> only with \<open>dragStart\<close>, is \<open>run_dragEnd_needs_dragStart\<close>.)
\<close>

theorem escape_keeps_dragMode:
  "dragStart (run exampleChart [Down (ctrlAt 50 50), Keydown escapeKey] (initialState modifierOptions)) = None \<and>
   dragEnd (run exampleChart [Down (ctrlAt 50 50), Keydown escapeKey] (initialState modifierOptions)) = None \<and>
   dragMode (run exampleChart [Down (ctrlAt 50 50), Keydown escapeKey] (initialState modifierOptions)) = Some DRAG"
  by (simp add: step_def mouseDown_def keyDown_def zoomStart_def
        initialState_def modifierOptions_def ctrlAt_def mouseAt_def escapeKey_def keyPressed_def
        keyNotPressed_def getModifierKey_def modifier_down_def addHandler_def
        removeHandler_def addEventListener_def removeEventListener_def emit_def call_def Let_def)

text \<open>
  Claim C5, as amended. An Escape keydown while a drag is pending clears \<open>dragStart\<close>
  and \<open>dragEnd\<close>, sets \<open>dragging\<close> to false, removes the keydown handler and its
  listener, and requests a redraw without animation; the mousemove handler and its
  listener stay as they are. Without a pending drag the handler changes nothing.
\<close>

theorem keyDown_escape:
  "(dragStart s \<noteq> None \<and> key e = ''Escape'' \<longrightarrow>
      dragStart (keyDown c e s) = None \<and>
      dragEnd (keyDown c e s) = None \<and>
      dragging (keyDown c e s) = False \<and>
      trace (keyDown c e s) = trace s @ [Update ''none''] \<and>
      handlers (keyDown c e s) = handlers (removeHandler ''keydown'' s) \<and>
      listeners (keyDown c e s) = listeners (removeHandler ''keydown'' s) \<and>
      (tracked ''keydown'' s \<longrightarrow> registered ''keydown'' (keyDown c e s) = []) \<and>
      handlers (keyDown c e s) ''mousemove'' = handlers s ''mousemove'' \<and>
      registered ''mousemove'' (keyDown c e s) = registered ''mousemove'' s) \<and>
   (dragStart s = None \<longrightarrow> keyDown c e s = s)"
proof -
  have "registered ''keydown'' ((removeHandler ''keydown'' s)
          \<lparr>dragging := False, dragStart := None, dragEnd := None\<rparr>) = []"
    if "tracked ''keydown'' s"
    using registered_removeHandler [OF that] by (simp add: registered_def)
  moreover have "registered ''mousemove'' ((removeHandler ''keydown'' s)
          \<lparr>dragging := False, dragStart := None, dragEnd := None\<rparr>) = registered ''mousemove'' s"
    using registered_removeHandler_other [of "''mousemove''" "''keydown''" s]
    by (simp add: registered_def)
  moreover have "handlers (removeHandler ''keydown'' s) ''mousemove'' = handlers s ''mousemove''"
    by (simp add: removeHandler_def split: option.splits)
  ultimately show ?thesis
    by (auto simp: keyDown_def emit_def registered_def)
qed

theorem keyDown_escape_witness:
  "dragStart (keyDown exampleChart escapeKey startedDrag) = None \<and>
   dragEnd (keyDown exampleChart escapeKey startedDrag) = None \<and>
   dragging (keyDown exampleChart escapeKey startedDrag) = False \<and>
   trace (keyDown exampleChart escapeKey startedDrag) = [Update ''none''] \<and>
   registered ''keydown'' (keyDown exampleChart escapeKey startedDrag) = [] \<and>
   registered ''mousemove'' (keyDown exampleChart escapeKey startedDrag) = [(1, ''mousemove'', 0)] \<and>
   keyDown exampleChart escapeKey (initialState modifierOptions) = initialState modifierOptions"
proof -
  have a: "dragStart startedDrag \<noteq> None \<and> key escapeKey = ''Escape''"
    by (simp add: startedDrag_eval escapeKey_def mouseAt_def)
  have t: "tracked ''keydown'' startedDrag"
    by (simp add: tracked_def registered_def startedDrag_eval)
  have r: "registered ''mousemove'' startedDrag = [(1, ''mousemove'', 0)]"
    and tr: "trace startedDrag = []"
    by (simp_all add: registered_def startedDrag_eval)
  have i: "dragStart (initialState modifierOptions) = None"
    by (simp add: initialState_def)
  show ?thesis
    using keyDown_escape [of startedDrag escapeKey exampleChart] a t r tr
      keyDown_escape [of "initialState modifierOptions" escapeKey exampleChart] i
    by simp
qed

text \<open>
  Claim C5 as stated fails: after a mousedown and an Escape keydown the mousemove
  listener is still registered on the canvas; the listener that is gone is the keydown
  one.
\<close>

theorem keyDown_escape_keeps_mousemove:
  "dragStart startedDrag = Some (ctrlAt 50 50) \<and> key escapeKey = ''Escape'' \<and>
   listeners startedDrag = [(1, ''mousemove'', 0), (2, ''keydown'', 1)] \<and>
   listeners (keyDown exampleChart escapeKey startedDrag) = [(1, ''mousemove'', 0)] \<and>
   handlers (keyDown exampleChart escapeKey startedDrag) ''mousemove'' =
     Some \<lparr>target = Some 1, hid = 0, wraps = MouseMove\<rparr>"
  by (simp add: startedDrag_eval keyDown_def escapeKey_def mouseAt_def removeHandler_def
        removeEventListener_def emit_def)

text \<open>
  Claim C6, as amended. A wheel event whose \<open>deltaY\<close> is undefined applies no zoom and
  runs no zoom-complete callback, and changes nothing of the interaction state. It is
  handled like any wheel event up to the check of the delta: \<open>onZoomRejected\<close> runs on a
  modifier mismatch or a vetoed start, \<open>onZoomStart\<close> runs when configured, and
  \<open>preventDefault\<close> is called when the event is cancelable and passed both.
\<close>

theorem wheel_without_delta:
  assumes "deltaY e = None"
  shows "wheel c e s =
    s\<lparr>trace := trace s @
       (let zo = zoomOptions (options s)
        in if keyNotPressed (getModifierKey (wheelOptions zo)) e
           then (if onZoomRejected zo then [CallOnZoomRejected e] else [])
           else (case onZoomStart zo of
                   None \<Rightarrow> (if cancelable e then [PreventDefault] else [])
                 | Some startCallback \<Rightarrow>
                     CallOnZoomStart e (getRelativePosition e) #
                     (if startCallback e (getRelativePosition e) = False
                      then (if onZoomRejected zo then [CallOnZoomRejected e] else [])
                      else (if cancelable e then [PreventDefault] else []))))\<rparr>"
  using assms
  by (simp add: wheel_def wheelPreconditions_def zoomStart_def Let_def emit_def call_def
        split: option.splits)

theorem wheel_without_delta_witness:
  "wheel exampleChart ((mouseAt 120 90)\<lparr>cancelable := False\<rparr>) (initialState modifierOptions) =
     initialState modifierOptions \<and>
   wheel exampleChart (mouseAt 120 90) (initialState modifierOptions) =
     (initialState modifierOptions)\<lparr>trace := [PreventDefault]\<rparr>"
proof -
  have "deltaY ((mouseAt 120 90)\<lparr>cancelable := False\<rparr>) = None" and "deltaY (mouseAt 120 90) = None"
    by (simp_all add: mouseAt_def)
  then show ?thesis
    using wheel_without_delta [of "(mouseAt 120 90)\<lparr>cancelable := False\<rparr>" exampleChart "initialState modifierOptions"]
      wheel_without_delta [of "mouseAt 120 90" exampleChart "initialState modifierOptions"]
    by (simp add: mouseAt_def initialState_def modifierOptions_def keyNotPressed_def getModifierKey_def)
qed

text \<open>
  Claim C6 as stated fails: a cancelable wheel event without a delta, with no modifier
  required, has its default action prevented.
\<close>

theorem wheel_without_delta_prevents_default:
  "deltaY (mouseAt 120 90) = None \<and>
   trace (wheel exampleChart (mouseAt 120 90) (initialState modifierOptions)) = [PreventDefault]"
  by (simp add: wheel_def wheelPreconditions_def zoomStart_def Let_def emit_def call_def
        mouseAt_def initialState_def modifierOptions_def keyNotPressed_def getModifierKey_def)




text \<open>
  Claim C9. A wheel event that passes the preconditions, with wheel speed 0.1, zooms
  both axes by 0.9 when \<open>deltaY\<close> is at least 0 and by 1.1 when it is negative, about
  the focal point (\<open>clientX - rect.left\<close>, \<open>clientY - rect.top\<close>); the debounced
  zoom-complete handler follows when there is one.
\<close>

theorem wheel_zoom_factor:
  assumes "wheelPreconditions c e (zoomOptions (options s)) s = (True, s1)"
    and "speed (wheelOptions (zoomOptions (options s))) = 0.1"
  shows "\<exists>d. deltaY e = Some d \<and>
    trace (wheel c e s) =
      trace s1 @
      [Zoom (if d \<ge> 0 then 0.9 else 1.1) (if d \<ge> 0 then 0.9 else 1.1)
            \<lparr>pt_x = clientX e - rectLeft e, pt_y = clientY e - rectTop e\<rparr>] @
      (if handlers s ''onZoomComplete'' = None then [] else [CallDebouncedZoomComplete])"
proof -
  from assms(1) obtain d where d: "deltaY e = Some d"
    by (auto simp: wheelPreconditions_def Let_def split: if_splits prod.splits bool.splits)
  show ?thesis
    using assms d by (auto simp: wheel_def Let_def emit_def)
qed

theorem wheel_zoom_factor_witness:
  "trace (wheel exampleChart (wheelAt 3) (initialState modifierOptions)) =
     [PreventDefault, Zoom 0.9 0.9 \<lparr>pt_x = 100, pt_y = 80\<rparr>] \<and>
   trace (wheel exampleChart (wheelAt (- 3)) (initialState modifierOptions)) =
     [PreventDefault, Zoom 1.1 1.1 \<lparr>pt_x = 100, pt_y = 80\<rparr>]"
proof -
  let ?s = "initialState modifierOptions"
  have p: "wheelPreconditions exampleChart (wheelAt d) (zoomOptions (options ?s)) ?s =
             (True, ?s\<lparr>trace := [PreventDefault]\<rparr>)" for d
    by (simp add: wheelPreconditions_def zoomStart_def Let_def emit_def wheelAt_def mouseAt_def
          initialState_def modifierOptions_def keyNotPressed_def getModifierKey_def)
  have sp: "speed (wheelOptions (zoomOptions (options ?s))) = 0.1"
    by (simp add: initialState_def modifierOptions_def)
  have h: "handlers ?s ''onZoomComplete'' = None"
    by (simp add: initialState_def)
  show ?thesis
    using wheel_zoom_factor [OF p sp, of 3] wheel_zoom_factor [OF p sp, of "- 3"] h
    by (simp add: wheelAt_def mouseAt_def)
qed

end
